theory Spec2Isabelle
  imports Main "HOL-Library.Word"
begin

unbundle bit_operations_syntax

section \<open>CTU CAN FD frame format: the header \<^verbatim>\<open>ctu_can_fd_frame.h\<close>\<close>

text \<open>
  The header declares one enumeration of byte offsets (the CAN frame-format memory map),
  seven unions that overlay a \<^verbatim>\<open>uint32_t u32\<close> with a struct \<^verbatim>\<open>s\<close> of bitfields, and six
  two-valued enumerations for the flags of the frame-form word. Each enumeration is a
  datatype with a function giving the enumerator's value; each struct is the list of its
  bitfield declarations, name and width, in declaration order, once for the branch under
  \<^verbatim>\<open>#ifdef __LITTLE_ENDIAN_BITFIELD\<close> and once for the \<^verbatim>\<open>#else\<close> branch.
\<close>

type_synonym u32 = "32 word"

subsection \<open>CAN\_Frame\_format memory map\<close>

datatype ctu_can_fd_can_frame_format =
  CTU_CAN_FD_FRAME_FORM_W
| CTU_CAN_FD_IDENTIFIER_W
| CTU_CAN_FD_TIMESTAMP_L_W
| CTU_CAN_FD_TIMESTAMP_U_W
| CTU_CAN_FD_DATA_1_4_W
| CTU_CAN_FD_DATA_5_8_W
| CTU_CAN_FD_DATA_61_64_W

text \<open>The value of each enumerator, as written in the header.\<close>

fun can_frame_format_val :: "ctu_can_fd_can_frame_format \<Rightarrow> nat" where
  "can_frame_format_val CTU_CAN_FD_FRAME_FORM_W = 0x0"
| "can_frame_format_val CTU_CAN_FD_IDENTIFIER_W = 0x4"
| "can_frame_format_val CTU_CAN_FD_TIMESTAMP_L_W = 0x8"
| "can_frame_format_val CTU_CAN_FD_TIMESTAMP_U_W = 0xc"
| "can_frame_format_val CTU_CAN_FD_DATA_1_4_W = 0x10"
| "can_frame_format_val CTU_CAN_FD_DATA_5_8_W = 0x14"
| "can_frame_format_val CTU_CAN_FD_DATA_61_64_W = 0x4c"

text \<open>The enumerators in declaration order.\<close>

definition can_frame_format_decl :: "ctu_can_fd_can_frame_format list" where
  "can_frame_format_decl =
     [CTU_CAN_FD_FRAME_FORM_W, CTU_CAN_FD_IDENTIFIER_W, CTU_CAN_FD_TIMESTAMP_L_W,
      CTU_CAN_FD_TIMESTAMP_U_W, CTU_CAN_FD_DATA_1_4_W, CTU_CAN_FD_DATA_5_8_W,
      CTU_CAN_FD_DATA_61_64_W]"

subsection \<open>Register descriptions: the bitfield structs\<close>

text \<open>
  The two configurations of the header: \<open>LITTLE_ENDIAN_BITFIELD\<close> is the branch taken
  when \<^verbatim>\<open>__LITTLE_ENDIAN_BITFIELD\<close> is defined, \<open>BIG_ENDIAN_BITFIELD\<close> is the \<^verbatim>\<open>#else\<close>
  branch.
\<close>

datatype bitfield_order = LITTLE_ENDIAN_BITFIELD | BIG_ENDIAN_BITFIELD

text \<open>A bitfield declaration \<^verbatim>\<open>uint32_t name : width;\<close>.\<close>

type_synonym bitfield_decl = "string \<times> nat"

definition ctu_can_fd_frame_form_w_s :: "bitfield_order \<Rightarrow> bitfield_decl list" where
  "ctu_can_fd_frame_form_w_s e =
     (case e of
        LITTLE_ENDIAN_BITFIELD \<Rightarrow>
          [(''dlc'', 4), (''reserved_4'', 1), (''rtr'', 1), (''ide'', 1), (''fdf'', 1),
           (''tbf'', 1), (''brs'', 1), (''esi_rsv'', 1), (''rwcnt'', 5),
           (''reserved_31_16'', 16)]
      | BIG_ENDIAN_BITFIELD \<Rightarrow>
          [(''reserved_31_16'', 16), (''rwcnt'', 5), (''esi_rsv'', 1), (''brs'', 1),
           (''tbf'', 1), (''fdf'', 1), (''ide'', 1), (''rtr'', 1), (''reserved_4'', 1),
           (''dlc'', 4)])"

definition ctu_can_fd_identifier_w_s :: "bitfield_order \<Rightarrow> bitfield_decl list" where
  "ctu_can_fd_identifier_w_s e =
     (case e of
        LITTLE_ENDIAN_BITFIELD \<Rightarrow>
          [(''identifier_ext'', 18), (''identifier_base'', 11), (''reserved_31_29'', 3)]
      | BIG_ENDIAN_BITFIELD \<Rightarrow>
          [(''reserved_31_29'', 3), (''identifier_base'', 11), (''identifier_ext'', 18)])"

text \<open>The two timestamp structs are declared outside any \<^verbatim>\<open>#ifdef\<close>.\<close>

definition ctu_can_fd_timestamp_l_w_s :: "bitfield_order \<Rightarrow> bitfield_decl list" where
  "ctu_can_fd_timestamp_l_w_s e = [(''time_stamp_31_0'', 32)]"

definition ctu_can_fd_timestamp_u_w_s :: "bitfield_order \<Rightarrow> bitfield_decl list" where
  "ctu_can_fd_timestamp_u_w_s e = [(''timestamp_l_w'', 32)]"

definition ctu_can_fd_data_1_4_w_s :: "bitfield_order \<Rightarrow> bitfield_decl list" where
  "ctu_can_fd_data_1_4_w_s e =
     (case e of
        LITTLE_ENDIAN_BITFIELD \<Rightarrow>
          [(''data_1'', 8), (''data_2'', 8), (''data_3'', 8), (''data_4'', 8)]
      | BIG_ENDIAN_BITFIELD \<Rightarrow>
          [(''data_4'', 8), (''data_3'', 8), (''data_2'', 8), (''data_1'', 8)])"

definition ctu_can_fd_data_5_8_w_s :: "bitfield_order \<Rightarrow> bitfield_decl list" where
  "ctu_can_fd_data_5_8_w_s e =
     (case e of
        LITTLE_ENDIAN_BITFIELD \<Rightarrow>
          [(''data_5'', 8), (''data_6'', 8), (''data_7'', 8), (''data_8'', 8)]
      | BIG_ENDIAN_BITFIELD \<Rightarrow>
          [(''data_8'', 8), (''data_7'', 8), (''data_6'', 8), (''data_5'', 8)])"

definition ctu_can_fd_data_61_64_w_s :: "bitfield_order \<Rightarrow> bitfield_decl list" where
  "ctu_can_fd_data_61_64_w_s e =
     (case e of
        LITTLE_ENDIAN_BITFIELD \<Rightarrow>
          [(''data_61'', 8), (''data_62'', 8), (''data_63'', 8), (''data_64'', 8)]
      | BIG_ENDIAN_BITFIELD \<Rightarrow>
          [(''data_64'', 8), (''data_63'', 8), (''data_62'', 8), (''data_61'', 8)])"

text \<open>The seven unions of the header, and the struct \<^verbatim>\<open>s\<close> of each.\<close>

datatype overlay_union =
  FRAME_FORM_W | IDENTIFIER_W | TIMESTAMP_L_W | TIMESTAMP_U_W
| DATA_1_4_W | DATA_5_8_W | DATA_61_64_W

fun struct_decl :: "overlay_union \<Rightarrow> bitfield_order \<Rightarrow> bitfield_decl list" where
  "struct_decl FRAME_FORM_W = ctu_can_fd_frame_form_w_s"
| "struct_decl IDENTIFIER_W = ctu_can_fd_identifier_w_s"
| "struct_decl TIMESTAMP_L_W = ctu_can_fd_timestamp_l_w_s"
| "struct_decl TIMESTAMP_U_W = ctu_can_fd_timestamp_u_w_s"
| "struct_decl DATA_1_4_W = ctu_can_fd_data_1_4_w_s"
| "struct_decl DATA_5_8_W = ctu_can_fd_data_5_8_w_s"
| "struct_decl DATA_61_64_W = ctu_can_fd_data_61_64_w_s"

subsection \<open>Flag values of the frame-form word\<close>

datatype ctu_can_fd_frame_form_w_rtr = NO_RTR_FRAME | RTR_FRAME

fun frame_form_w_rtr_val :: "ctu_can_fd_frame_form_w_rtr \<Rightarrow> nat" where
  "frame_form_w_rtr_val NO_RTR_FRAME = 0x0"
| "frame_form_w_rtr_val RTR_FRAME = 0x1"

datatype ctu_can_fd_frame_form_w_ide = BASE | EXTENDED

fun frame_form_w_ide_val :: "ctu_can_fd_frame_form_w_ide \<Rightarrow> nat" where
  "frame_form_w_ide_val BASE = 0x0"
| "frame_form_w_ide_val EXTENDED = 0x1"

datatype ctu_can_fd_frame_form_w_fdf = NORMAL_CAN | FD_CAN

fun frame_form_w_fdf_val :: "ctu_can_fd_frame_form_w_fdf \<Rightarrow> nat" where
  "frame_form_w_fdf_val NORMAL_CAN = 0x0"
| "frame_form_w_fdf_val FD_CAN = 0x1"

datatype ctu_can_fd_frame_form_w_tbf = NOT_TIME_BASED | TIME_BASED

fun frame_form_w_tbf_val :: "ctu_can_fd_frame_form_w_tbf \<Rightarrow> nat" where
  "frame_form_w_tbf_val NOT_TIME_BASED = 0x0"
| "frame_form_w_tbf_val TIME_BASED = 0x1"

datatype ctu_can_fd_frame_form_w_brs = BR_NO_SHIFT | BR_SHIFT

fun frame_form_w_brs_val :: "ctu_can_fd_frame_form_w_brs \<Rightarrow> nat" where
  "frame_form_w_brs_val BR_NO_SHIFT = 0x0"
| "frame_form_w_brs_val BR_SHIFT = 0x1"

datatype ctu_can_fd_frame_form_w_esi_rsv = ESI_ERR_ACTIVE | ESI_ERR_PASIVE

fun frame_form_w_esi_rsv_val :: "ctu_can_fd_frame_form_w_esi_rsv \<Rightarrow> nat" where
  "frame_form_w_esi_rsv_val ESI_ERR_ACTIVE = 0x0"
| "frame_form_w_esi_rsv_val ESI_ERR_PASIVE = 0x1"

text \<open>
  The enumerations named \<^verbatim>\<open>ctu_can_fd_frame_form_w_<field>\<close> in the header, each with
  the field of the frame-form word its name refers to and the values of its enumerators
  in declaration order.
\<close>

definition frame_form_w_enums :: "(string \<times> nat list) list" where
  "frame_form_w_enums =
     [(''rtr'', map frame_form_w_rtr_val [NO_RTR_FRAME, RTR_FRAME]),
      (''ide'', map frame_form_w_ide_val [BASE, EXTENDED]),
      (''fdf'', map frame_form_w_fdf_val [NORMAL_CAN, FD_CAN]),
      (''tbf'', map frame_form_w_tbf_val [NOT_TIME_BASED, TIME_BASED]),
      (''brs'', map frame_form_w_brs_val [BR_NO_SHIFT, BR_SHIFT]),
      (''esi_rsv'', map frame_form_w_esi_rsv_val [ESI_ERR_ACTIVE, ESI_ERR_PASIVE])]"

subsection \<open>How a struct of bitfields lies in its 32-bit word\<close>

text \<open>
  The header leaves the placement of the bitfields to the compiler and selects the
  declaration order to match it. The convention behind \<^verbatim>\<open>__LITTLE_ENDIAN_BITFIELD\<close> is
  the one modelled here: when it is defined, the compiler allocates bitfields in
  declaration order from bit 0 of the storage unit upward; otherwise (a big-endian
  bitfield target) it allocates them from bit 31 downward. A placed field is its name,
  the index of its least significant bit and its width. The subtraction in \<open>alloc_down\<close>
  never truncates on the structs of the header: each is exactly 32 bits wide.
\<close>

type_synonym placed_field = "string \<times> nat \<times> nat"

fun alloc_up :: "nat \<Rightarrow> bitfield_decl list \<Rightarrow> placed_field list" where
  "alloc_up pos [] = []"
| "alloc_up pos ((n, wd) # fs) = (n, pos, wd) # alloc_up (pos + wd) fs"

fun alloc_down :: "nat \<Rightarrow> bitfield_decl list \<Rightarrow> placed_field list" where
  "alloc_down hi [] = []"
| "alloc_down hi ((n, wd) # fs) = (n, hi - wd, wd) # alloc_down (hi - wd) fs"

definition layout :: "bitfield_order \<Rightarrow> bitfield_decl list \<Rightarrow> placed_field list" where
  "layout e fs =
     (case e of
        LITTLE_ENDIAN_BITFIELD \<Rightarrow> alloc_up 0 fs
      | BIG_ENDIAN_BITFIELD \<Rightarrow> alloc_down 32 fs)"

definition union_layout :: "overlay_union \<Rightarrow> bitfield_order \<Rightarrow> placed_field list" where
  "union_layout u e = layout e (struct_decl u e)"

definition field_pos :: "overlay_union \<Rightarrow> bitfield_order \<Rightarrow> string \<Rightarrow> (nat \<times> nat) option" where
  "field_pos u e n = map_of (union_layout u e) n"

subsection \<open>The two views of a union\<close>

text \<open>
  The state of a union object is its 32-bit word: member \<^verbatim>\<open>u32\<close> reads and writes all
  of it, member \<^verbatim>\<open>s.name\<close> reads and writes the bits of the field. Reading a bitfield of
  type \<^verbatim>\<open>uint32_t\<close> gives its bits as an unsigned number; assigning to it keeps the low
  \<open>width\<close> bits of the value and leaves the rest of the storage unit alone.
\<close>

definition read_bits :: "nat \<Rightarrow> nat \<Rightarrow> u32 \<Rightarrow> u32" where
  "read_bits lsb wd w = take_bit wd (drop_bit lsb w)"

definition write_bits :: "nat \<Rightarrow> nat \<Rightarrow> u32 \<Rightarrow> u32 \<Rightarrow> u32" where
  "write_bits lsb wd v w =
     (w AND NOT (push_bit lsb (mask wd))) OR push_bit lsb (take_bit wd v)"

text \<open>
  \<^verbatim>\<open>x.s.name\<close> and \<^verbatim>\<open>x.s.name = v\<close> on a union \<open>u\<close> holding the word \<open>w\<close>; a name the
  struct does not declare is \<open>None\<close> (the C does not compile).
\<close>

definition get_field :: "overlay_union \<Rightarrow> bitfield_order \<Rightarrow> string \<Rightarrow> u32 \<Rightarrow> u32 option" where
  "get_field u e n w =
     (case field_pos u e n of
        None \<Rightarrow> None
      | Some (lsb, wd) \<Rightarrow> Some (read_bits lsb wd w))"

definition set_field :: "overlay_union \<Rightarrow> bitfield_order \<Rightarrow> string \<Rightarrow> u32 \<Rightarrow> u32 \<Rightarrow> u32 option" where
  "set_field u e n v w =
     (case field_pos u e n of
        None \<Rightarrow> None
      | Some (lsb, wd) \<Rightarrow> Some (write_bits lsb wd v w))"

text \<open>
  The struct view of a word: every declared field with the value read from it, in
  declaration order.
\<close>

definition decode :: "overlay_union \<Rightarrow> bitfield_order \<Rightarrow> u32 \<Rightarrow> (string \<times> u32) list" where
  "decode u e w = map (\<lambda>(n, lsb, wd). (n, read_bits lsb wd w)) (union_layout u e)"

text \<open>
  Assigning a list of field values, one after the other, to a union holding \<open>w\<close>;
  \<open>encode\<close> starts from a zeroed union.
\<close>

fun assign_fields ::
  "overlay_union \<Rightarrow> bitfield_order \<Rightarrow> (string \<times> u32) list \<Rightarrow> u32 \<Rightarrow> u32 option" where
  "assign_fields u e [] w = Some w"
| "assign_fields u e ((n, v) # s) w =
     (case set_field u e n v w of
        None \<Rightarrow> None
      | Some w' \<Rightarrow> assign_fields u e s w')"

definition encode :: "overlay_union \<Rightarrow> bitfield_order \<Rightarrow> (string \<times> u32) list \<Rightarrow> u32 option" where
  "encode u e s = assign_fields u e s 0"

text \<open>The largest value a field of the given width can hold.\<close>

definition field_max :: "nat \<Rightarrow> u32" where
  "field_max wd = mask wd"

text \<open>Bit \<open>i\<close> of the word belongs to the placed field.\<close>

fun in_range :: "placed_field \<Rightarrow> nat \<Rightarrow> bool" where
  "in_range (n, lsb, wd) i = (lsb \<le> i \<and> i < lsb + wd)"

text \<open>
  Copying the listed fields from a union holding \<open>src\<close> into a union holding \<open>w\<close>, by
  position; used to reason about \<open>assign_fields\<close>.
\<close>

fun copy_fields :: "placed_field list \<Rightarrow> u32 \<Rightarrow> u32 \<Rightarrow> u32" where
  "copy_fields [] src w = w"
| "copy_fields ((n, lsb, wd) # ps) src w =
     copy_fields ps src (write_bits lsb wd (read_bits lsb wd src) w)"

subsection \<open>The timestamp of a frame\<close>

text \<open>
  Modelled from the spec: the core's storing of a frame's 64-bit timestamp in the two
  timestamp words of the frame buffer, which the header does not contain. The spec's
  data model gives the timestamp-low word as the "lower 32 bits of RX/TX timestamp" and
  the timestamp-high word as the "upper 32 bits of timestamp"; the other five words hold
  no part of it.
\<close>

definition timestamp_word :: "overlay_union \<Rightarrow> 64 word \<Rightarrow> u32 option" where
  "timestamp_word u ts =
     (case u of
        TIMESTAMP_L_W \<Rightarrow> Some (ucast ts)
      | TIMESTAMP_U_W \<Rightarrow> Some (ucast (drop_bit 32 ts))
      | _ \<Rightarrow> None)"

section \<open>Bits of a field, and facts about the allocation\<close>

lemmas struct_defs =
  ctu_can_fd_frame_form_w_s_def ctu_can_fd_identifier_w_s_def
  ctu_can_fd_timestamp_l_w_s_def ctu_can_fd_timestamp_u_w_s_def
  ctu_can_fd_data_1_4_w_s_def ctu_can_fd_data_5_8_w_s_def ctu_can_fd_data_61_64_w_s_def

lemmas layout_defs = union_layout_def layout_def struct_defs

text \<open>Reading and writing a field, bit by bit.\<close>

lemma bit_read_bits: "bit (read_bits l wd w) n = (n < wd \<and> bit w (l + n))"
  by (simp add: read_bits_def bit_simps)

lemma bit_write_bits:
  "bit (write_bits l wd v w) n =
     (n < 32 \<and> (if l \<le> n \<and> n < l + wd then bit v (n - l) else bit w n))"
  by (auto simp add: write_bits_def bit_simps dest: bit_imp_le_length)

text \<open>Facts about the seven declarations.\<close>

lemma widths_sum: "sum_list (map snd (struct_decl u e)) = 32"
  by (cases u; cases e) (simp_all add: struct_defs)

lemma names_distinct: "distinct (map fst (struct_decl u e))"
  by (cases u; cases e) (simp_all add: struct_defs)

text \<open>
  Facts about the allocation: it keeps the names, every field lies inside the allocated
  span, the fields tile the span without gaps and without overlap.
\<close>

lemma alloc_up_names: "map fst (alloc_up pos fs) = map fst fs"
  by (induction pos fs rule: alloc_up.induct) simp_all

lemma alloc_down_names: "map fst (alloc_down hi fs) = map fst fs"
  by (induction hi fs rule: alloc_down.induct) simp_all

lemma layout_names: "map fst (union_layout u e) = map fst (struct_decl u e)"
  by (cases e) (simp_all add: union_layout_def layout_def alloc_up_names alloc_down_names)

lemma layout_distinct: "distinct (map fst (union_layout u e))"
  by (simp add: layout_names names_distinct)

lemma alloc_up_bounds:
  "(n, l, wd) \<in> set (alloc_up pos fs) \<Longrightarrow> pos \<le> l \<and> l + wd \<le> pos + sum_list (map snd fs)"
  by (induction pos fs rule: alloc_up.induct) fastforce+

lemma alloc_down_bounds:
  "(n, l, wd) \<in> set (alloc_down hi fs) \<Longrightarrow> sum_list (map snd fs) \<le> hi \<Longrightarrow>
     hi - sum_list (map snd fs) \<le> l \<and> l + wd \<le> hi"
  by (induction hi fs rule: alloc_down.induct) fastforce+

lemma alloc_up_cover:
  "pos \<le> i \<Longrightarrow> i < pos + sum_list (map snd fs) \<Longrightarrow> \<exists>p \<in> set (alloc_up pos fs). in_range p i"
proof (induction pos fs rule: alloc_up.induct)
  case (1 pos)
  then show ?case by simp
next
  case (2 pos n wd fs)
  show ?case
  proof (cases "i < pos + wd")
    case True
    with 2 show ?thesis by simp
  next
    case False
    with 2 have "\<exists>p \<in> set (alloc_up (pos + wd) fs). in_range p i" by simp
    then show ?thesis by auto
  qed
qed

lemma alloc_down_cover:
  "sum_list (map snd fs) \<le> hi \<Longrightarrow> hi - sum_list (map snd fs) \<le> i \<Longrightarrow> i < hi \<Longrightarrow>
     \<exists>p \<in> set (alloc_down hi fs). in_range p i"
proof (induction hi fs rule: alloc_down.induct)
  case (1 hi)
  then show ?case by simp
next
  case (2 hi n wd fs)
  show ?case
  proof (cases "hi - wd \<le> i")
    case True
    with 2 show ?thesis by auto
  next
    case False
    with 2 have "\<exists>p \<in> set (alloc_down (hi - wd) fs). in_range p i" by simp
    then show ?thesis by auto
  qed
qed

lemma layout_cover: "i < 32 \<Longrightarrow> \<exists>p \<in> set (union_layout u e). in_range p i"
  by (cases e)
     (simp_all add: union_layout_def layout_def alloc_up_cover alloc_down_cover widths_sum)

lemma alloc_up_disjoint:
  "p \<in> set (alloc_up pos fs) \<Longrightarrow> q \<in> set (alloc_up pos fs) \<Longrightarrow>
     in_range p i \<Longrightarrow> in_range q i \<Longrightarrow> p = q"
proof (induction pos fs rule: alloc_up.induct)
  case (1 pos)
  then show ?case by simp
next
  case (2 pos n wd fs)
  have tl: "pos + wd \<le> i" if "r \<in> set (alloc_up (pos + wd) fs)" "in_range r i" for r
  proof -
    obtain m l w where r: "r = (m, l, w)" by (cases r)
    with that alloc_up_bounds [of m l w "pos + wd" fs] show ?thesis by simp
  qed
  from 2 tl show ?case by fastforce
qed

lemma alloc_down_disjoint:
  "p \<in> set (alloc_down hi fs) \<Longrightarrow> q \<in> set (alloc_down hi fs) \<Longrightarrow>
     sum_list (map snd fs) \<le> hi \<Longrightarrow> in_range p i \<Longrightarrow> in_range q i \<Longrightarrow> p = q"
proof (induction hi fs rule: alloc_down.induct)
  case (1 hi)
  then show ?case by simp
next
  case (2 hi n wd fs)
  have tl: "i < hi - wd" if "r \<in> set (alloc_down (hi - wd) fs)" "in_range r i" for r
  proof -
    obtain m l w where r: "r = (m, l, w)" by (cases r)
    from 2(4) have "sum_list (map snd fs) \<le> hi - wd" by simp
    with r that alloc_down_bounds [of m l w "hi - wd" fs] show ?thesis by simp
  qed
  from 2 tl show ?case by fastforce
qed

lemma layout_disjoint:
  "p \<in> set (union_layout u e) \<Longrightarrow> q \<in> set (union_layout u e) \<Longrightarrow>
     in_range p i \<Longrightarrow> in_range q i \<Longrightarrow> p = q"
  by (cases e)
     (auto simp add: union_layout_def layout_def widths_sum
           dest: alloc_up_disjoint alloc_down_disjoint)

lemma layout_bounds: "(n, l, wd) \<in> set (union_layout u e) \<Longrightarrow> l + wd \<le> 32"
  using alloc_up_bounds [of n l wd 0 "struct_decl u e"]
        alloc_down_bounds [of n l wd 32 "struct_decl u e"]
  by (cases e) (simp_all add: union_layout_def layout_def widths_sum)

lemma field_pos_member:
  "(n, l, wd) \<in> set (union_layout u e) \<Longrightarrow> field_pos u e n = Some (l, wd)"
  by (simp add: field_pos_def layout_distinct)

lemma field_pos_SomeD:
  "field_pos u e n = Some (l, wd) \<Longrightarrow> (n, l, wd) \<in> set (union_layout u e)"
  by (simp add: field_pos_def map_of_SomeD)

text \<open>Field access by name, and what it does to the word.\<close>

lemma set_field_member:
  "(n, l, wd) \<in> set (union_layout u e) \<Longrightarrow> set_field u e n v w = Some (write_bits l wd v w)"
  by (simp add: set_field_def field_pos_member)

lemma get_field_member:
  "(n, l, wd) \<in> set (union_layout u e) \<Longrightarrow> get_field u e n w = Some (read_bits l wd w)"
  by (simp add: get_field_def field_pos_member)

lemma assign_fields_copy:
  "set ps \<subseteq> set (union_layout u e) \<Longrightarrow>
     assign_fields u e (map (\<lambda>(n, lsb, wd). (n, read_bits lsb wd src)) ps) w
       = Some (copy_fields ps src w)"
proof (induction ps src w rule: copy_fields.induct)
  case (1 src w)
  then show ?case by simp
next
  case (2 n lsb wd ps src w)
  from 2(2) have mem: "(n, lsb, wd) \<in> set (union_layout u e)"
    and rest: "set ps \<subseteq> set (union_layout u e)" by simp_all
  from 2(1) [OF rest] show ?case
    by (simp add: set_field_member [OF mem])
qed

lemma bit_copy_fields:
  "bit (copy_fields ps src w) i =
     (if \<exists>p \<in> set ps. in_range p i then bit src i else bit w i)"
proof (induction ps src w rule: copy_fields.induct)
  case (1 src w)
  then show ?case by simp
next
  case (2 n lsb wd ps src w)
  then show ?case
    by (auto simp add: bit_write_bits bit_read_bits dest: bit_imp_le_length)
qed

lemma decode_roundtrip: "assign_fields u e (decode u e w) w0 = Some w"
proof -
  have "copy_fields (union_layout u e) w w0 = w"
  proof (rule bit_word_eqI)
    fix i assume "i < LENGTH(32)"
    then have "\<exists>p \<in> set (union_layout u e). in_range p i"
      by (simp add: layout_cover)
    then show "bit (copy_fields (union_layout u e) w w0) i = bit w i"
      by (simp add: bit_copy_fields)
  qed
  then show ?thesis
    by (simp add: decode_def assign_fields_copy)
qed

lemma write_bits_frame:
  assumes p: "(n, l, wd) \<in> set (union_layout u e)"
    and q: "(m, l', wd') \<in> set (union_layout u e)"
    and neq: "m \<noteq> n"
  shows "read_bits l' wd' (write_bits l wd v w) = read_bits l' wd' w"
proof (rule bit_word_eqI)
  fix i assume "i < LENGTH(32)"
  have "\<not> in_range (n, l, wd) (l' + i)" if "i < wd'"
  proof
    assume "in_range (n, l, wd) (l' + i)"
    moreover from that have "in_range (m, l', wd') (l' + i)" by simp
    ultimately have "(n, l, wd) = (m, l', wd')"
      using p q layout_disjoint by blast
    with neq show False by simp
  qed
  then show "bit (read_bits l' wd' (write_bits l wd v w)) i = bit (read_bits l' wd' w) i"
    by (auto simp add: bit_read_bits bit_write_bits dest: bit_imp_le_length)
qed

lemma read_write_same:
  "l + wd \<le> 32 \<Longrightarrow> read_bits l wd (write_bits l wd v w) = take_bit wd v"
  by (rule bit_word_eqI) (auto simp add: bit_read_bits bit_write_bits bit_simps)

lemma write_max_zero: "write_bits l wd (field_max wd) 0 = push_bit l (field_max wd)"
  by (rule bit_word_eqI) (auto simp add: bit_write_bits field_max_def bit_simps)

lemma read_bits_le_max: "read_bits l wd w \<le> field_max wd"
  by (simp add: read_bits_def field_max_def take_bit_eq_mask word_and_le1)

lemma take_bit_field_max: "take_bit wd (field_max wd) = field_max wd"
  by (simp add: field_max_def)

lemma field_max_eq: "field_max wd = 2 ^ wd - 1"
  by (simp add: field_max_def mask_eq_decr_exp)

text \<open>
  The two branches declare the fields in opposite orders and the two allocations run in
  opposite directions, so either branch puts every field at the same bits of the word.
\<close>

lemma union_layout_rev:
  "union_layout u BIG_ENDIAN_BITFIELD = rev (union_layout u LITTLE_ENDIAN_BITFIELD)"
  by (cases u) (simp_all add: layout_defs)

lemma field_pos_same_in_both_branches:
  "field_pos u BIG_ENDIAN_BITFIELD n = field_pos u LITTLE_ENDIAN_BITFIELD n"
proof -
  have "distinct (map fst (rev (union_layout u LITTLE_ENDIAN_BITFIELD)))"
    by (simp add: distinct_rev rev_map [symmetric] layout_distinct)
  then have "map_of (rev (union_layout u LITTLE_ENDIAN_BITFIELD)) n
           = map_of (union_layout u LITTLE_ENDIAN_BITFIELD) n"
    by (intro map_of_inject_set [THEN iffD2, THEN fun_cong]) (simp_all add: layout_distinct)
  then show ?thesis
    by (simp add: field_pos_def union_layout_rev)
qed

text \<open>
  The two halves of a 64-bit value as numbers, and the timestamp words read through
  their fields.
\<close>

lemma unat_low_half: "unat (ucast (ts :: 64 word) :: u32) = unat ts mod 2 ^ 32"
  by (simp add: unsigned_ucast_eq take_bit_eq_mod)

lemma unat_high_half: "unat (ucast (drop_bit 32 ts :: 64 word) :: u32) = unat ts div 2 ^ 32"
proof -
  have "unat ts < 2 ^ 64"
    using unsigned_less [of ts, where ?'a = nat] by simp
  then have small: "unat ts div 2 ^ 32 < 2 ^ 32"
    by (simp add: less_mult_imp_div_less)
  have "unat (drop_bit 32 ts) = unat ts div 2 ^ 32"
    using unat_drop_bit_eq [of 32 ts] by (simp only: drop_bit_eq_div [of 32 "unat ts"])
  then have "unat (ucast (drop_bit 32 ts) :: u32) = (unat ts div 2 ^ 32) mod 2 ^ 32"
    by (simp only: unat_low_half)
  with small show ?thesis by simp
qed

lemma read_whole: "read_bits 0 32 w = w"
  by (rule bit_word_eqI) (simp add: bit_read_bits)

lemma write_whole: "write_bits 0 32 v w = v"
  by (rule bit_word_eqI) (auto simp add: bit_write_bits dest: bit_imp_le_length)

lemma timestamp_fields_whole:
  "get_field TIMESTAMP_L_W e ''time_stamp_31_0'' w = Some w"
  "get_field TIMESTAMP_U_W e ''timestamp_l_w'' w = Some w"
  by (cases e; simp add: get_field_def field_pos_def layout_defs read_whole)+

lemma timestamp_word_simps:
  "timestamp_word TIMESTAMP_L_W ts = Some (ucast ts)"
  "timestamp_word TIMESTAMP_U_W ts = Some (ucast (drop_bit 32 ts))"
  by (simp_all only: timestamp_word_def overlay_union.case)

lemma timestamp_l_read:
  "Option.bind (timestamp_word TIMESTAMP_L_W ts)
     (get_field TIMESTAMP_L_W e ''time_stamp_31_0'') = Some (ucast ts)"
  by (simp only: timestamp_word_simps bind.simps timestamp_fields_whole)

lemma timestamp_u_read:
  "Option.bind (timestamp_word TIMESTAMP_U_W ts)
     (get_field TIMESTAMP_U_W e ''timestamp_l_w'') = Some (ucast (drop_bit 32 ts))"
  by (simp only: timestamp_word_simps bind.simps timestamp_fields_whole)

section \<open>The memory map\<close>

text \<open>
  C1. The frame-format offset enumeration has exactly seven enumerators, and their
  values are, in declaration order: frame-form word 0x0, identifier word 0x4,
  timestamp-low word 0x8, timestamp-high word 0xc, and the three data words 0x10, 0x14
  and 0x4c.
\<close>

theorem can_frame_format_table:
  "(UNIV :: ctu_can_fd_can_frame_format set) = set can_frame_format_decl
   \<and> distinct can_frame_format_decl
   \<and> length can_frame_format_decl = 7
   \<and> map can_frame_format_val can_frame_format_decl = [0x0, 0x4, 0x8, 0xc, 0x10, 0x14, 0x4c]
   \<and> can_frame_format_val CTU_CAN_FD_FRAME_FORM_W = 0x0
   \<and> can_frame_format_val CTU_CAN_FD_IDENTIFIER_W = 0x4
   \<and> can_frame_format_val CTU_CAN_FD_TIMESTAMP_L_W = 0x8
   \<and> can_frame_format_val CTU_CAN_FD_TIMESTAMP_U_W = 0xc
   \<and> can_frame_format_val CTU_CAN_FD_DATA_1_4_W = 0x10
   \<and> can_frame_format_val CTU_CAN_FD_DATA_5_8_W = 0x14
   \<and> can_frame_format_val CTU_CAN_FD_DATA_61_64_W = 0x4c"
proof -
  have "x \<in> set can_frame_format_decl" for x
    by (cases x) (simp_all add: can_frame_format_decl_def)
  then have "(UNIV :: ctu_can_fd_can_frame_format set) = set can_frame_format_decl"
    by blast
  then show ?thesis
    by (simp add: can_frame_format_decl_def)
qed

text \<open>
  C9. Every offset of the memory map is a multiple of 4, the offsets increase strictly
  in declaration order, and the data words sit where a contiguous payload of four bytes
  per word starting at 0x10 puts them: bytes 5-8 in word 1, bytes 61-64 in word 15, at
  0x10 + 4 * 15 = 0x4c.
\<close>

theorem can_frame_format_aligned_increasing:
  "can_frame_format_val x mod 4 = 0
   \<and> sorted_wrt (<) (map can_frame_format_val can_frame_format_decl)
   \<and> can_frame_format_val CTU_CAN_FD_DATA_5_8_W
       = can_frame_format_val CTU_CAN_FD_DATA_1_4_W + 4 * ((5 - 1) div 4)
   \<and> can_frame_format_val CTU_CAN_FD_DATA_61_64_W
       = can_frame_format_val CTU_CAN_FD_DATA_1_4_W + 4 * ((61 - 1) div 4)
   \<and> can_frame_format_val CTU_CAN_FD_DATA_61_64_W = 0x10 + 4 * 15
   \<and> can_frame_format_val CTU_CAN_FD_DATA_61_64_W = 0x4c"
  by (cases x) (simp_all add: can_frame_format_decl_def)

section \<open>Widths\<close>

text \<open>
  C2. In each of the seven unions, and in both branches of the header, the widths of the
  declared bitfields add up to exactly 32.
\<close>

theorem struct_widths_sum_32:
  "sum_list (map snd (struct_decl u e)) = 32"
  by (cases u; cases e) (simp_all add: struct_defs)

section \<open>The fields of each word\<close>

text \<open>
  C4. In the little-endian branch the frame-form word is, from bit 0 upward: \<open>dlc\<close>
  (4 bits), one reserved bit, \<open>rtr\<close>, \<open>ide\<close>, \<open>fdf\<close>, \<open>tbf\<close>, \<open>brs\<close>, \<open>esi_rsv\<close> (1 bit
  each), \<open>rwcnt\<close> (5 bits) and 16 reserved bits. The other branch declares the same
  fields with the same widths in exactly the reverse order.
\<close>

theorem frame_form_w_fields:
  "struct_decl FRAME_FORM_W LITTLE_ENDIAN_BITFIELD =
     [(''dlc'', 4), (''reserved_4'', 1), (''rtr'', 1), (''ide'', 1), (''fdf'', 1),
      (''tbf'', 1), (''brs'', 1), (''esi_rsv'', 1), (''rwcnt'', 5), (''reserved_31_16'', 16)]
   \<and> union_layout FRAME_FORM_W LITTLE_ENDIAN_BITFIELD =
     [(''dlc'', 0, 4), (''reserved_4'', 4, 1), (''rtr'', 5, 1), (''ide'', 6, 1),
      (''fdf'', 7, 1), (''tbf'', 8, 1), (''brs'', 9, 1), (''esi_rsv'', 10, 1),
      (''rwcnt'', 11, 5), (''reserved_31_16'', 16, 16)]
   \<and> struct_decl FRAME_FORM_W BIG_ENDIAN_BITFIELD
       = rev (struct_decl FRAME_FORM_W LITTLE_ENDIAN_BITFIELD)"
  by (simp add: layout_defs)

text \<open>
  C5. In the little-endian branch the identifier word is, from bit 0 upward:
  \<open>identifier_ext\<close> (18 bits), \<open>identifier_base\<close> (11 bits) and 3 reserved bits. The
  other branch declares the same fields in the reverse order.
\<close>

theorem identifier_w_fields:
  "struct_decl IDENTIFIER_W LITTLE_ENDIAN_BITFIELD =
     [(''identifier_ext'', 18), (''identifier_base'', 11), (''reserved_31_29'', 3)]
   \<and> union_layout IDENTIFIER_W LITTLE_ENDIAN_BITFIELD =
     [(''identifier_ext'', 0, 18), (''identifier_base'', 18, 11), (''reserved_31_29'', 29, 3)]
   \<and> struct_decl IDENTIFIER_W BIG_ENDIAN_BITFIELD
       = rev (struct_decl IDENTIFIER_W LITTLE_ENDIAN_BITFIELD)"
  by (simp add: layout_defs)

text \<open>
  C6. Each of the three data words (bytes 1-4, 5-8, 61-64) is four fields of 8 bits. In
  the little-endian branch the lowest-numbered byte is the least significant byte of the
  word, the next one the byte above it, and so on; the other branch declares the four
  fields in the reverse order.
\<close>

theorem data_words_fields:
  "struct_decl DATA_1_4_W LITTLE_ENDIAN_BITFIELD =
     [(''data_1'', 8), (''data_2'', 8), (''data_3'', 8), (''data_4'', 8)]
   \<and> struct_decl DATA_5_8_W LITTLE_ENDIAN_BITFIELD =
     [(''data_5'', 8), (''data_6'', 8), (''data_7'', 8), (''data_8'', 8)]
   \<and> struct_decl DATA_61_64_W LITTLE_ENDIAN_BITFIELD =
     [(''data_61'', 8), (''data_62'', 8), (''data_63'', 8), (''data_64'', 8)]
   \<and> union_layout DATA_1_4_W LITTLE_ENDIAN_BITFIELD =
     [(''data_1'', 0, 8), (''data_2'', 8, 8), (''data_3'', 16, 8), (''data_4'', 24, 8)]
   \<and> union_layout DATA_5_8_W LITTLE_ENDIAN_BITFIELD =
     [(''data_5'', 0, 8), (''data_6'', 8, 8), (''data_7'', 16, 8), (''data_8'', 24, 8)]
   \<and> union_layout DATA_61_64_W LITTLE_ENDIAN_BITFIELD =
     [(''data_61'', 0, 8), (''data_62'', 8, 8), (''data_63'', 16, 8), (''data_64'', 24, 8)]
   \<and> get_field DATA_1_4_W LITTLE_ENDIAN_BITFIELD ''data_1'' w = Some (take_bit 8 w)
   \<and> get_field DATA_5_8_W LITTLE_ENDIAN_BITFIELD ''data_5'' w = Some (take_bit 8 w)
   \<and> get_field DATA_61_64_W LITTLE_ENDIAN_BITFIELD ''data_61'' w = Some (take_bit 8 w)
   \<and> struct_decl DATA_1_4_W BIG_ENDIAN_BITFIELD
       = rev (struct_decl DATA_1_4_W LITTLE_ENDIAN_BITFIELD)
   \<and> struct_decl DATA_5_8_W BIG_ENDIAN_BITFIELD
       = rev (struct_decl DATA_5_8_W LITTLE_ENDIAN_BITFIELD)
   \<and> struct_decl DATA_61_64_W BIG_ENDIAN_BITFIELD
       = rev (struct_decl DATA_61_64_W LITTLE_ENDIAN_BITFIELD)"
  by (simp add: layout_defs get_field_def field_pos_def read_bits_def)

text \<open>
  C7. Each of the two timestamp words, the lower one at 0x8 and the upper one in the
  next word at 0xc, is a single field of 32 bits that takes up the whole word: in either
  branch of the header the field reads as the value of \<^verbatim>\<open>u32\<close>, and assigning to it
  sets \<^verbatim>\<open>u32\<close> to the value assigned. Of a frame's timestamp \<open>ts\<close> the timestamp-low
  union holds the lower 32 bits, so its field reads as \<open>ts mod 2 ^ 32\<close>, and the
  timestamp-high union holds the upper 32 bits, so its field reads as \<open>ts div 2 ^ 32\<close>;
  the two together are the whole timestamp.
\<close>

theorem timestamp_words_whole:
  "struct_decl TIMESTAMP_L_W e = [(''time_stamp_31_0'', 32)]
   \<and> struct_decl TIMESTAMP_U_W e = [(''timestamp_l_w'', 32)]
   \<and> union_layout TIMESTAMP_L_W e = [(''time_stamp_31_0'', 0, 32)]
   \<and> union_layout TIMESTAMP_U_W e = [(''timestamp_l_w'', 0, 32)]
   \<and> get_field TIMESTAMP_L_W e ''time_stamp_31_0'' w = Some w
   \<and> get_field TIMESTAMP_U_W e ''timestamp_l_w'' w = Some w
   \<and> set_field TIMESTAMP_L_W e ''time_stamp_31_0'' v w = Some v
   \<and> set_field TIMESTAMP_U_W e ''timestamp_l_w'' v w = Some v
   \<and> decode TIMESTAMP_L_W e w = [(''time_stamp_31_0'', w)]
   \<and> decode TIMESTAMP_U_W e w = [(''timestamp_l_w'', w)]
   \<and> can_frame_format_val CTU_CAN_FD_TIMESTAMP_U_W
       = can_frame_format_val CTU_CAN_FD_TIMESTAMP_L_W + 4
   \<and> map_option unat (Option.bind (timestamp_word TIMESTAMP_L_W ts)
        (get_field TIMESTAMP_L_W e ''time_stamp_31_0'')) = Some (unat ts mod 2 ^ 32)
   \<and> map_option unat (Option.bind (timestamp_word TIMESTAMP_U_W ts)
        (get_field TIMESTAMP_U_W e ''timestamp_l_w'')) = Some (unat ts div 2 ^ 32)
   \<and> Option.bind (timestamp_word TIMESTAMP_L_W ts)
        (get_field TIMESTAMP_L_W e ''time_stamp_31_0'') = Some (ucast ts)
   \<and> Option.bind (timestamp_word TIMESTAMP_U_W ts)
        (get_field TIMESTAMP_U_W e ''timestamp_l_w'') = Some (ucast (drop_bit 32 ts))
   \<and> unat ts = 2 ^ 32 * unat (ucast (drop_bit 32 ts) :: u32) + unat (ucast ts :: u32)"
proof -
  have layout:
    "struct_decl TIMESTAMP_L_W e = [(''time_stamp_31_0'', 32)]
     \<and> struct_decl TIMESTAMP_U_W e = [(''timestamp_l_w'', 32)]
     \<and> union_layout TIMESTAMP_L_W e = [(''time_stamp_31_0'', 0, 32)]
     \<and> union_layout TIMESTAMP_U_W e = [(''timestamp_l_w'', 0, 32)]
     \<and> get_field TIMESTAMP_L_W e ''time_stamp_31_0'' w = Some w
     \<and> get_field TIMESTAMP_U_W e ''timestamp_l_w'' w = Some w
     \<and> set_field TIMESTAMP_L_W e ''time_stamp_31_0'' v w = Some v
     \<and> set_field TIMESTAMP_U_W e ''timestamp_l_w'' v w = Some v
     \<and> decode TIMESTAMP_L_W e w = [(''time_stamp_31_0'', w)]
     \<and> decode TIMESTAMP_U_W e w = [(''timestamp_l_w'', w)]
     \<and> can_frame_format_val CTU_CAN_FD_TIMESTAMP_U_W
         = can_frame_format_val CTU_CAN_FD_TIMESTAMP_L_W + 4"
    by (cases e)
       (simp_all add: layout_defs get_field_def set_field_def field_pos_def decode_def
          read_whole write_whole)
  have lo: "map_option unat (Option.bind (timestamp_word TIMESTAMP_L_W ts)
        (get_field TIMESTAMP_L_W e ''time_stamp_31_0'')) = Some (unat ts mod 2 ^ 32)"
    by (simp only: timestamp_l_read option.map unat_low_half)
  have hi: "map_option unat (Option.bind (timestamp_word TIMESTAMP_U_W ts)
        (get_field TIMESTAMP_U_W e ''timestamp_l_w'')) = Some (unat ts div 2 ^ 32)"
    by (simp only: timestamp_u_read option.map unat_high_half)
  note st = timestamp_l_read [of ts e] timestamp_u_read [of ts e]
  have join: "unat ts = 2 ^ 32 * unat (ucast (drop_bit 32 ts) :: u32) + unat (ucast ts :: u32)"
    by (simp only: unat_high_half) (simp only: unat_low_half mult_div_mod_eq)
  from layout lo hi st join show ?thesis by (intro conjI) (erule conjunct1 | simp)+
qed

theorem timestamp_words_whole_witness:
  "map_option unat (Option.bind (timestamp_word TIMESTAMP_L_W 0x1122334455667788)
        (get_field TIMESTAMP_L_W BIG_ENDIAN_BITFIELD ''time_stamp_31_0'')) = Some 0x55667788
   \<and> map_option unat (Option.bind (timestamp_word TIMESTAMP_U_W 0x1122334455667788)
        (get_field TIMESTAMP_U_W BIG_ENDIAN_BITFIELD ''timestamp_l_w'')) = Some 0x11223344"
proof -
  have a: "unat (0x1122334455667788 :: 64 word) mod 2 ^ 32 = 0x55667788"
    and b: "unat (0x1122334455667788 :: 64 word) div 2 ^ 32 = 0x11223344"
    by simp_all
  from timestamp_words_whole
         [where e = BIG_ENDIAN_BITFIELD and w = 0 and v = 0 and ts = "0x1122334455667788"]
  have lo: "map_option unat (Option.bind (timestamp_word TIMESTAMP_L_W 0x1122334455667788)
        (get_field TIMESTAMP_L_W BIG_ENDIAN_BITFIELD ''time_stamp_31_0''))
          = Some (unat (0x1122334455667788 :: 64 word) mod 2 ^ 32)"
    and hi: "map_option unat (Option.bind (timestamp_word TIMESTAMP_U_W 0x1122334455667788)
        (get_field TIMESTAMP_U_W BIG_ENDIAN_BITFIELD ''timestamp_l_w''))
          = Some (unat (0x1122334455667788 :: 64 word) div 2 ^ 32)"
    by blast+
  from lo [unfolded a] hi [unfolded b] show ?thesis by (rule conjI)
qed

section \<open>The flag enumerations\<close>

text \<open>
  C8. The frame-form word has exactly six flag enumerations, for \<open>rtr\<close>, \<open>ide\<close>, \<open>fdf\<close>,
  \<open>tbf\<close>, \<open>brs\<close> and \<open>esi_rsv\<close>. Each has exactly two enumerators, with the values 0x0
  and 0x1, and the field it belongs to is 1 bit wide in either branch of the header, so
  every enumerator fits in its field.
\<close>

theorem frame_form_w_flag_enums:
  "length frame_form_w_enums = 6
   \<and> frame_form_w_enums =
       [(''rtr'', [0x0, 0x1]), (''ide'', [0x0, 0x1]), (''fdf'', [0x0, 0x1]),
        (''tbf'', [0x0, 0x1]), (''brs'', [0x0, 0x1]), (''esi_rsv'', [0x0, 0x1])]
   \<and> (\<forall>(f, vals) \<in> set frame_form_w_enums.
         vals = [0x0, 0x1]
         \<and> (case field_pos FRAME_FORM_W e f of
              None \<Rightarrow> False
            | Some (lsb, wd) \<Rightarrow> wd = 1 \<and> (\<forall>v \<in> set vals. v < 2 ^ wd)))
   \<and> (UNIV :: ctu_can_fd_frame_form_w_rtr set) = {NO_RTR_FRAME, RTR_FRAME}
   \<and> (UNIV :: ctu_can_fd_frame_form_w_ide set) = {BASE, EXTENDED}
   \<and> (UNIV :: ctu_can_fd_frame_form_w_fdf set) = {NORMAL_CAN, FD_CAN}
   \<and> (UNIV :: ctu_can_fd_frame_form_w_tbf set) = {NOT_TIME_BASED, TIME_BASED}
   \<and> (UNIV :: ctu_can_fd_frame_form_w_brs set) = {BR_NO_SHIFT, BR_SHIFT}
   \<and> (UNIV :: ctu_can_fd_frame_form_w_esi_rsv set) = {ESI_ERR_ACTIVE, ESI_ERR_PASIVE}"
proof -
  have tab: "frame_form_w_enums =
       [(''rtr'', [0x0, 0x1]), (''ide'', [0x0, 0x1]), (''fdf'', [0x0, 0x1]),
        (''tbf'', [0x0, 0x1]), (''brs'', [0x0, 0x1]), (''esi_rsv'', [0x0, 0x1])]"
    by (simp add: frame_form_w_enums_def)
  have fits: "\<forall>(f, vals) \<in> set frame_form_w_enums.
         vals = [0x0, 0x1]
         \<and> (case field_pos FRAME_FORM_W e f of
              None \<Rightarrow> False
            | Some (lsb, wd) \<Rightarrow> wd = 1 \<and> (\<forall>v \<in> set vals. v < 2 ^ wd))"
    unfolding tab by (cases e) (simp_all add: field_pos_def layout_defs)
  have u1: "(UNIV :: ctu_can_fd_frame_form_w_rtr set) = {NO_RTR_FRAME, RTR_FRAME}"
    using ctu_can_fd_frame_form_w_rtr.exhaust by blast
  have u2: "(UNIV :: ctu_can_fd_frame_form_w_ide set) = {BASE, EXTENDED}"
    using ctu_can_fd_frame_form_w_ide.exhaust by blast
  have u3: "(UNIV :: ctu_can_fd_frame_form_w_fdf set) = {NORMAL_CAN, FD_CAN}"
    using ctu_can_fd_frame_form_w_fdf.exhaust by blast
  have u4: "(UNIV :: ctu_can_fd_frame_form_w_tbf set) = {NOT_TIME_BASED, TIME_BASED}"
    using ctu_can_fd_frame_form_w_tbf.exhaust by blast
  have u5: "(UNIV :: ctu_can_fd_frame_form_w_brs set) = {BR_NO_SHIFT, BR_SHIFT}"
    using ctu_can_fd_frame_form_w_brs.exhaust by blast
  have u6: "(UNIV :: ctu_can_fd_frame_form_w_esi_rsv set) = {ESI_ERR_ACTIVE, ESI_ERR_PASIVE}"
    using ctu_can_fd_frame_form_w_esi_rsv.exhaust by blast
  have len: "length frame_form_w_enums = 6" by (simp add: frame_form_w_enums_def)
  from len tab fits u1 u2 u3 u4 u5 u6 show ?thesis
    by (intro conjI)
qed

theorem frame_form_w_flag_enums_witness:
  "(''brs'', [0x0, 0x1]) \<in> set frame_form_w_enums
   \<and> field_pos FRAME_FORM_W LITTLE_ENDIAN_BITFIELD ''brs'' = Some (9, 1)
   \<and> (0x0 :: nat) < 2 ^ 1 \<and> (0x1 :: nat) < 2 ^ 1"
proof -
  have mem: "(''brs'', [0x0, 0x1]) \<in> set frame_form_w_enums"
    by (simp add: frame_form_w_enums_def)
  have pos: "field_pos FRAME_FORM_W LITTLE_ENDIAN_BITFIELD ''brs'' = Some (9, 1)"
    by (simp add: field_pos_def layout_defs)
  from frame_form_w_flag_enums [of LITTLE_ENDIAN_BITFIELD] mem
  have "case field_pos FRAME_FORM_W LITTLE_ENDIAN_BITFIELD ''brs'' of
          None \<Rightarrow> False
        | Some (lsb, wd) \<Rightarrow> wd = 1 \<and> (\<forall>v \<in> set [0x0, 0x1 :: nat]. v < 2 ^ wd)"
    by blast
  with mem pos show ?thesis by simp
qed

section \<open>The two views hold the same 32 bits\<close>

text \<open>
  C3. For every union and both branches of the header, the struct view and the \<^verbatim>\<open>u32\<close>
  view are the same 32 bits: reading every field of a word and assigning the values read
  to a union, whatever it held before (a zeroed one for \<open>encode\<close>), gives the word back.
  Assigning to one field of a zeroed union the largest value it can hold, \<open>2 ^ wd - 1\<close>,
  makes \<^verbatim>\<open>u32\<close> that value shifted to the field's position; the field then reads as that
  value, and no word makes it read as more.
\<close>

theorem overlay_views_agree:
  "assign_fields u e (decode u e w) w0 = Some w
   \<and> encode u e (decode u e w) = Some w
   \<and> (\<forall>(n, lsb, wd) \<in> set (union_layout u e).
         field_max wd = 2 ^ wd - 1
         \<and> set_field u e n (field_max wd) 0 = Some (push_bit lsb (field_max wd))
         \<and> get_field u e n (push_bit lsb (field_max wd)) = Some (field_max wd)
         \<and> (case get_field u e n w of None \<Rightarrow> False | Some v \<Rightarrow> v \<le> field_max wd))"
proof -
  have "set_field u e n (field_max wd) 0 = Some (push_bit lsb (field_max wd))
        \<and> get_field u e n (push_bit lsb (field_max wd)) = Some (field_max wd)
        \<and> (case get_field u e n w of None \<Rightarrow> False | Some v \<Rightarrow> v \<le> field_max wd)"
    if mem: "(n, lsb, wd) \<in> set (union_layout u e)" for n lsb wd
  proof -
    have "read_bits lsb wd (write_bits lsb wd (field_max wd) 0) = take_bit wd (field_max wd)"
      using layout_bounds [OF mem] by (rule read_write_same)
    then have "read_bits lsb wd (push_bit lsb (field_max wd)) = field_max wd"
      by (simp add: write_max_zero take_bit_field_max)
    then show ?thesis
      by (simp add: set_field_member [OF mem] get_field_member [OF mem] write_max_zero
            read_bits_le_max)
  qed
  then show ?thesis
    by (auto simp add: encode_def decode_roundtrip field_max_eq)
qed

theorem overlay_views_agree_witness:
  "encode FRAME_FORM_W BIG_ENDIAN_BITFIELD
      (decode FRAME_FORM_W BIG_ENDIAN_BITFIELD 0x12345678) = Some 0x12345678
   \<and> (''rwcnt'', 11, 5) \<in> set (union_layout FRAME_FORM_W BIG_ENDIAN_BITFIELD)
   \<and> field_max 5 = 31
   \<and> set_field FRAME_FORM_W BIG_ENDIAN_BITFIELD ''rwcnt'' (field_max 5) 0 = Some 0xF800
   \<and> get_field FRAME_FORM_W BIG_ENDIAN_BITFIELD ''rwcnt'' 0xF800 = Some 31"
proof -
  have mem: "(''rwcnt'', 11, 5) \<in> set (union_layout FRAME_FORM_W BIG_ENDIAN_BITFIELD)"
    by (simp add: layout_defs)
  have pat: "push_bit 11 (field_max 5) = (0xF800 :: u32)" "field_max 5 = 31"
    by (simp_all add: field_max_def mask_eq_decr_exp push_bit_eq_mult)
  from overlay_views_agree [of FRAME_FORM_W BIG_ENDIAN_BITFIELD "0x12345678" 0] mem
  have "encode FRAME_FORM_W BIG_ENDIAN_BITFIELD
          (decode FRAME_FORM_W BIG_ENDIAN_BITFIELD 0x12345678) = Some 0x12345678"
    and "set_field FRAME_FORM_W BIG_ENDIAN_BITFIELD ''rwcnt'' (field_max 5) 0
          = Some (push_bit 11 (field_max 5))"
    and "get_field FRAME_FORM_W BIG_ENDIAN_BITFIELD ''rwcnt'' (push_bit 11 (field_max 5))
          = Some (field_max 5)"
    by blast+
  with mem pat show ?thesis by simp
qed

text \<open>
  C10. For every union, both branches of the header, every declared field and every
  word: assigning a value to the field succeeds, the field then reads as the value cut
  to the field's width, every other declared field (the reserved ones are declared
  fields too) reads as before, and every bit of \<^verbatim>\<open>u32\<close> outside the field's range is
  unchanged.
\<close>

theorem set_field_frame:
  assumes "(n, lsb, wd) \<in> set (union_layout u e)"
  shows "\<exists>w'. set_field u e n v w = Some w'
           \<and> get_field u e n w' = Some (take_bit wd v)
           \<and> (\<forall>(m, lsb', wd') \<in> set (union_layout u e).
                 m \<noteq> n \<longrightarrow> get_field u e m w' = get_field u e m w)
           \<and> (\<forall>i. \<not> in_range (n, lsb, wd) i \<longrightarrow> bit w' i = bit w i)"
proof -
  let ?w' = "write_bits lsb wd v w"
  have "set_field u e n v w = Some ?w'"
    by (simp add: set_field_member [OF assms])
  moreover have "get_field u e n ?w' = Some (take_bit wd v)"
    by (simp add: get_field_member [OF assms] read_write_same [OF layout_bounds [OF assms]])
  moreover have "get_field u e m ?w' = get_field u e m w"
    if "(m, lsb', wd') \<in> set (union_layout u e)" "m \<noteq> n" for m lsb' wd'
    using that by (simp add: get_field_member write_bits_frame [OF assms])
  moreover have "bit ?w' i = bit w i" if "\<not> in_range (n, lsb, wd) i" for i
    using that by (auto simp add: bit_write_bits dest: bit_imp_le_length)
  ultimately show ?thesis by blast
qed

theorem set_field_frame_witness:
  "(''rtr'', 5, 1) \<in> set (union_layout FRAME_FORM_W LITTLE_ENDIAN_BITFIELD)
   \<and> set_field FRAME_FORM_W LITTLE_ENDIAN_BITFIELD ''rtr'' 1 0xABCD0F0F = Some 0xABCD0F2F
   \<and> get_field FRAME_FORM_W LITTLE_ENDIAN_BITFIELD ''rtr'' 0xABCD0F2F = Some 1
   \<and> get_field FRAME_FORM_W LITTLE_ENDIAN_BITFIELD ''dlc'' 0xABCD0F2F
       = get_field FRAME_FORM_W LITTLE_ENDIAN_BITFIELD ''dlc'' 0xABCD0F0F
   \<and> get_field FRAME_FORM_W LITTLE_ENDIAN_BITFIELD ''reserved_31_16'' 0xABCD0F2F
       = get_field FRAME_FORM_W LITTLE_ENDIAN_BITFIELD ''reserved_31_16'' 0xABCD0F0F
   \<and> bit (0xABCD0F2F :: u32) 4 = bit (0xABCD0F0F :: u32) 4"
proof -
  let ?L = "union_layout FRAME_FORM_W LITTLE_ENDIAN_BITFIELD"
  have mem: "(''rtr'', 5, 1) \<in> set ?L"
    and dlc: "(''dlc'', 0, 4) \<in> set ?L"
    and rsv: "(''reserved_31_16'', 16, 16) \<in> set ?L"
    by (simp_all add: layout_defs)
  have val: "set_field FRAME_FORM_W LITTLE_ENDIAN_BITFIELD ''rtr'' 1 0xABCD0F0F = Some 0xABCD0F2F"
    by (simp add: set_field_def field_pos_def layout_defs write_bits_def mask_eq_decr_exp
          push_bit_eq_mult)
  from set_field_frame [OF mem, of 1 "0xABCD0F0F"] val
  have rd: "get_field FRAME_FORM_W LITTLE_ENDIAN_BITFIELD ''rtr'' 0xABCD0F2F = Some (take_bit 1 1)"
    and others: "\<forall>(m, lsb', wd') \<in> set ?L. m \<noteq> ''rtr'' \<longrightarrow>
           get_field FRAME_FORM_W LITTLE_ENDIAN_BITFIELD m 0xABCD0F2F
             = get_field FRAME_FORM_W LITTLE_ENDIAN_BITFIELD m 0xABCD0F0F"
    and bits: "\<forall>i. \<not> in_range (''rtr'', 5, 1) i \<longrightarrow>
           bit (0xABCD0F2F :: u32) i = bit (0xABCD0F0F :: u32) i"
    by auto
  from others dlc
  have "get_field FRAME_FORM_W LITTLE_ENDIAN_BITFIELD ''dlc'' 0xABCD0F2F
          = get_field FRAME_FORM_W LITTLE_ENDIAN_BITFIELD ''dlc'' 0xABCD0F0F"
    by fastforce
  moreover from others rsv
  have "get_field FRAME_FORM_W LITTLE_ENDIAN_BITFIELD ''reserved_31_16'' 0xABCD0F2F
          = get_field FRAME_FORM_W LITTLE_ENDIAN_BITFIELD ''reserved_31_16'' 0xABCD0F0F"
    by fastforce
  moreover have "\<not> in_range (''rtr'', 5, 1) 4" by simp
  with bits have "bit (0xABCD0F2F :: u32) 4 = bit (0xABCD0F0F :: u32) 4"
    by blast
  moreover from rd have "get_field FRAME_FORM_W LITTLE_ENDIAN_BITFIELD ''rtr'' 0xABCD0F2F = Some 1"
    by simp
  ultimately show ?thesis using mem val by (intro conjI)
qed

end
